theory Spec2Isabelle
  imports Complex_Main
begin

section \<open>Python values, exceptions and outcomes\<close>

text \<open>
  The dashboard passes untyped Python values between its stages: dictionaries returned
  by the provider modules, metrics objects with attributes, numbers and strings.
  \<open>pyval\<close> keeps the shapes that \<^verbatim>\<open>main\<close> (app.py) and
  \<^verbatim>\<open>render_social_media_section\<close> (components/social_media_panel.py) inspect.
  A dictionary and the attributes of an object are association lists; the first entry
  for a key is the one a lookup sees. Strings are byte strings: a character outside ASCII
  is written as its UTF-8 bytes. \<open>PFloat\<close> carries the finite float values as reals
  (NaN and the infinities have no representative).
\<close>

datatype pyval =
    PNone
  | PBool bool
  | PInt int
  | PFloat real
  | PStr string
  | PList "pyval list"
  | PDict "(string \<times> pyval) list"
  | PObj "(string \<times> pyval) list"

text \<open>
  A raised exception is either an instance of a class derived from \<^verbatim>\<open>Exception\<close>
  (\<open>Exc\<close>, with the class name) or of one derived only from \<^verbatim>\<open>BaseException\<close>
  (\<open>BaseExc\<close>: KeyboardInterrupt, SystemExit, GeneratorExit). The handlers of this
  repository are all \<^verbatim>\<open>except Exception\<close>, which catches the first kind only.
  A computation that may raise returns \<open>py_exc + 'a\<close>, \<open>Inl\<close> being the raise.
\<close>

datatype py_exc = Exc string | BaseExc string

definition bind_exc :: "py_exc + 'a \<Rightarrow> ('a \<Rightarrow> py_exc + 'b) \<Rightarrow> py_exc + 'b" where
  "bind_exc m f = (case m of Inl e \<Rightarrow> Inl e | Inr v \<Rightarrow> f v)"

text \<open>
  \<^verbatim>\<open>try: x = body  except Exception: x = handler\<close>: the value of the body when it
  returns, the handler's value when it raises an \<^verbatim>\<open>Exception\<close>, and the raise
  itself otherwise.
\<close>

fun try_except :: "py_exc + 'a \<Rightarrow> 'a \<Rightarrow> py_exc + 'a" where
  "try_except (Inr v) handler = Inr v"
| "try_except (Inl (Exc n)) handler = Inr handler"
| "try_except (Inl (BaseExc n)) handler = Inl (BaseExc n)"

text \<open>
  \<^verbatim>\<open>d.get(key, default)\<close>. Only a dictionary has the method; on any other value
  the attribute lookup raises AttributeError. A key that is present with the value
  None yields None, not the default.
\<close>

fun dict_get :: "pyval \<Rightarrow> string \<Rightarrow> pyval \<Rightarrow> py_exc + pyval" where
  "dict_get (PDict kvs) k dflt = Inr (case map_of kvs k of Some v \<Rightarrow> v | None \<Rightarrow> dflt)"
| "dict_get v k dflt = Inl (Exc ''AttributeError'')"

text \<open>\<^verbatim>\<open>len(x)\<close>: defined on strings, lists and dictionaries, TypeError elsewhere.\<close>

fun py_len :: "pyval \<Rightarrow> py_exc + pyval" where
  "py_len (PStr s) = Inr (PInt (int (length s)))"
| "py_len (PList xs) = Inr (PInt (int (length xs)))"
| "py_len (PDict kvs) = Inr (PInt (int (length kvs)))"
| "py_len v = Inl (Exc ''TypeError'')"

section \<open>The scoring stage of \<^verbatim>\<open>main\<close> (app.py, lines 280 to 305)\<close>

text \<open>
  \<^verbatim>\<open>ScoringEngine\<close> lives in modules/scoring.py, which is not part of the sources
  at hand; \<^verbatim>\<open>main\<close> only calls its three methods. The engine is therefore a
  parameter: three functions from the argument values to an outcome, about which
  nothing is assumed.
\<close>

record scoring_engine =
  calculate_trend_score :: "pyval \<Rightarrow> pyval \<Rightarrow> py_exc + pyval"
  calculate_potential_score :: "pyval \<Rightarrow> pyval \<Rightarrow> pyval \<Rightarrow> pyval \<Rightarrow> py_exc + pyval"
  calculate_opportunity_level :: "pyval \<Rightarrow> pyval \<Rightarrow> py_exc + pyval"

text \<open>The handlers' literals: \<^verbatim>\<open>{"score": 0, "grade": "F", "factors": {}}\<close> and the
  lowest opportunity level; the icon is the snowflake emoji (U+2744 U+FE0F) in UTF-8.\<close>

definition default_score :: pyval where
  "default_score = PDict [(''score'', PInt 0), (''grade'', PStr ''F''), (''factors'', PDict [])]"

definition default_opportunity :: pyval where
  "default_opportunity = PDict
     [(''level'', PStr ''MUY BAJA''),
      (''combined_score'', PInt 0),
      (''color'', PStr ''#EF4444''),
      (''icon'', PStr [CHR 0xE2, CHR 0x9D, CHR 0x84, CHR 0xEF, CHR 0xB8, CHR 0x8F]),
      (''action'', PStr ''No prioritario'')]"

text \<open>
  The body of each \<^verbatim>\<open>try\<close>: the arguments are evaluated left to right inside
  the block, so a failing \<^verbatim>\<open>.get\<close> or \<^verbatim>\<open>len\<close> is handled like a failing call.
\<close>

definition trend_call :: "scoring_engine \<Rightarrow> pyval \<Rightarrow> pyval \<Rightarrow> py_exc + pyval" where
  "trend_call eng timeline_data related_data =
     bind_exc (dict_get related_data ''queries'' (PDict [])) (\<lambda>queries.
     bind_exc (dict_get queries ''rising'' (PList [])) (\<lambda>rising.
     bind_exc (py_len rising) (\<lambda>related_queries_count.
       calculate_trend_score eng timeline_data related_queries_count)))"

definition potential_call ::
  "scoring_engine \<Rightarrow> pyval \<Rightarrow> pyval \<Rightarrow> pyval \<Rightarrow> pyval \<Rightarrow> py_exc + pyval" where
  "potential_call eng timeline_data related_data growth_data seasonality_data =
     bind_exc (dict_get related_data ''queries'' (PDict [])) (\<lambda>queries.
     bind_exc (dict_get queries ''rising'' (PList [])) (\<lambda>rising_queries.
     bind_exc (dict_get growth_data ''current_value'' (PInt 0)) (\<lambda>current_value.
     bind_exc (dict_get seasonality_data ''is_seasonal'' (PBool False)) (\<lambda>is_seasonal.
       calculate_potential_score eng timeline_data rising_queries current_value is_seasonal))))"

definition opportunity_call :: "scoring_engine \<Rightarrow> pyval \<Rightarrow> pyval \<Rightarrow> py_exc + pyval" where
  "opportunity_call eng trend_score potential_score =
     bind_exc (dict_get trend_score ''score'' (PInt 0)) (\<lambda>ts.
     bind_exc (dict_get potential_score ''score'' (PInt 0)) (\<lambda>ps.
       calculate_opportunity_level eng ts ps))"

definition trend_stage :: "scoring_engine \<Rightarrow> pyval \<Rightarrow> pyval \<Rightarrow> py_exc + pyval" where
  "trend_stage eng timeline_data related_data =
     try_except (trend_call eng timeline_data related_data) default_score"

definition potential_stage ::
  "scoring_engine \<Rightarrow> pyval \<Rightarrow> pyval \<Rightarrow> pyval \<Rightarrow> pyval \<Rightarrow> py_exc + pyval" where
  "potential_stage eng timeline_data related_data growth_data seasonality_data =
     try_except (potential_call eng timeline_data related_data growth_data seasonality_data)
       default_score"

definition opportunity_stage :: "scoring_engine \<Rightarrow> pyval \<Rightarrow> pyval \<Rightarrow> py_exc + pyval" where
  "opportunity_stage eng trend_score potential_score =
     try_except (opportunity_call eng trend_score potential_score) default_opportunity"

text \<open>The three statements in sequence; the result is the triple
  \<^verbatim>\<open>(trend_score, potential_score, opportunity)\<close> that the layout code then reads.\<close>

definition scoring_stage ::
  "scoring_engine \<Rightarrow> pyval \<Rightarrow> pyval \<Rightarrow> pyval \<Rightarrow> pyval \<Rightarrow> py_exc + (pyval \<times> pyval \<times> pyval)" where
  "scoring_stage eng timeline_data related_data growth_data seasonality_data =
     bind_exc (trend_stage eng timeline_data related_data) (\<lambda>trend_score.
     bind_exc (potential_stage eng timeline_data related_data growth_data seasonality_data)
       (\<lambda>potential_score.
     bind_exc (opportunity_stage eng trend_score potential_score) (\<lambda>opportunity.
       Inr (trend_score, potential_score, opportunity))))"

text \<open>
  An engine used as an example below: its trend call raises ValueError, its potential
  call returns a score and its opportunity call raises ZeroDivisionError.
\<close>

definition failing_engine :: scoring_engine where
  "failing_engine =
     \<lparr>calculate_trend_score = (\<lambda>timeline n. Inl (Exc ''ValueError'')),
      calculate_potential_score =
        (\<lambda>timeline rising current seasonal. Inr (PDict [(''score'', PInt 55)])),
      calculate_opportunity_level = (\<lambda>ts ps. Inl (Exc ''ZeroDivisionError''))\<rparr>"

section \<open>\<^verbatim>\<open>render_social_media_section\<close> (components/social_media_panel.py)\<close>

text \<open>
  What the function does to the page is the list of Streamlit calls it makes, in order.
  The private renderers of the module (\<^verbatim>\<open>_render_social_summary\<close>,
  \<^verbatim>\<open>_render_opportunity_alert\<close>, the three tab renderers) are recorded as calls
  with the arguments they receive; \<open>Within_tab i c\<close> is the call \<open>c\<close> made inside
  \<^verbatim>\<open>with tabs[i]\<close>.
\<close>

datatype ui_call =
    Markdown string
  | Info string
  | Render_social_summary pyval pyval pyval
  | Render_opportunity_alert pyval
  | Tabs "string list"
  | Render_youtube_tab pyval pyval
  | Render_tiktok_tab pyval pyval
  | Render_comparison_tab pyval pyval pyval pyval
  | Within_tab nat ui_call

text \<open>Truth value of a Python value; an instance of a plain class is true.\<close>

fun py_truthy :: "pyval \<Rightarrow> bool" where
  "py_truthy PNone = False"
| "py_truthy (PBool b) = b"
| "py_truthy (PInt n) = (n \<noteq> 0)"
| "py_truthy (PFloat x) = (x \<noteq> 0)"
| "py_truthy (PStr s) = (s \<noteq> [])"
| "py_truthy (PList xs) = (xs \<noteq> [])"
| "py_truthy (PDict kvs) = (kvs \<noteq> [])"
| "py_truthy (PObj attrs) = True"

text \<open>
  \<^verbatim>\<open>obj.name\<close>. The names read in this module (\<^verbatim>\<open>total_videos\<close>,
  \<^verbatim>\<open>opportunity_type\<close>) are attributes of no builtin type, so only an object can
  have them. \<^verbatim>\<open>getattr(obj, name, default)\<close> turns the AttributeError into the default.
\<close>

fun py_getattr :: "pyval \<Rightarrow> string \<Rightarrow> py_exc + pyval" where
  "py_getattr (PObj attrs) name =
     (case map_of attrs name of Some v \<Rightarrow> Inr v | None \<Rightarrow> Inl (Exc ''AttributeError''))"
| "py_getattr v name = Inl (Exc ''AttributeError'')"

definition py_getattr_default :: "pyval \<Rightarrow> string \<Rightarrow> pyval \<Rightarrow> pyval" where
  "py_getattr_default obj name dflt = (case py_getattr obj name of Inr v \<Rightarrow> v | Inl e \<Rightarrow> dflt)"

text \<open>\<^verbatim>\<open>x > 0\<close>: numbers compare (True counts as 1), anything else raises TypeError.\<close>

fun py_gt_zero :: "pyval \<Rightarrow> py_exc + bool" where
  "py_gt_zero (PInt n) = Inr (0 < n)"
| "py_gt_zero (PBool b) = Inr b"
| "py_gt_zero (PFloat x) = Inr (0 < x)"
| "py_gt_zero v = Inl (Exc ''TypeError'')"

fun is_not_none :: "pyval \<Rightarrow> bool" where
  "is_not_none PNone = False"
| "is_not_none v = True"

text \<open>
  Lines 38 to 49, once per platform: the flag starts False, the guarded assignment
  \<^verbatim>\<open>metrics is not None and getattr(metrics, 'total_videos', 0) > 0\<close> replaces it,
  and \<^verbatim>\<open>except Exception: pass\<close> leaves it False.
\<close>

definition has_videos :: "pyval \<Rightarrow> py_exc + bool" where
  "has_videos metrics =
     try_except
       (if is_not_none metrics
        then py_gt_zero (py_getattr_default metrics ''total_videos'' (PInt 0))
        else Inr False)
       False"

definition section_title :: string where
  "section_title = ''### '' @ [CHR 0xF0, CHR 0x9F, CHR 0x93, CHR 0xB1] @ '' Social Media Intelligence''"

definition no_data_message :: string where
  "no_data_message =
     ''No se encontraron datos de redes sociales para este t'' @ [CHR 0xC3, CHR 0xA9] @ ''rmino.''"

definition youtube_tab_name :: string where
  "youtube_tab_name = [CHR 0xF0, CHR 0x9F, CHR 0x93, CHR 0xBA] @ '' YouTube''"

definition tiktok_tab_name :: string where
  "tiktok_tab_name = [CHR 0xF0, CHR 0x9F, CHR 0x8E, CHR 0xB5] @ '' TikTok''"

definition comparison_tab_name :: string where
  "comparison_tab_name = [CHR 0xF0, CHR 0x9F, CHR 0x93, CHR 0x8A] @ '' Comparativa''"

text \<open>\<^verbatim>\<open>social_metrics and social_metrics.opportunity_type\<close>, as a condition.\<close>

definition has_opportunity :: "pyval \<Rightarrow> py_exc + bool" where
  "has_opportunity social_metrics =
     (if py_truthy social_metrics
      then bind_exc (py_getattr social_metrics ''opportunity_type'') (\<lambda>t. Inr (py_truthy t))
      else Inr False)"

text \<open>Lines 55 to 94: what is drawn once at least one platform has videos.\<close>

definition render_panels ::
  "bool \<Rightarrow> bool \<Rightarrow> pyval \<Rightarrow> pyval \<Rightarrow> pyval \<Rightarrow> pyval \<Rightarrow> pyval \<Rightarrow> pyval
     \<Rightarrow> ui_call list \<times> py_exc option" where
  "render_panels has_youtube has_tiktok youtube_data youtube_metrics tiktok_data tiktok_metrics
       social_metrics trends_score =
     (let summary = [Render_social_summary youtube_metrics tiktok_metrics social_metrics,
                     Markdown ''---'']
      in case has_opportunity social_metrics of
           Inl e \<Rightarrow> (summary, Some e)
         | Inr alert \<Rightarrow>
             (let tab_names = (if has_youtube then [youtube_tab_name] else [])
                    @ (if has_tiktok then [tiktok_tab_name] else [])
                    @ [comparison_tab_name];
                  tab_idx1 = (if has_youtube then 1 else 0);
                  tab_idx2 = (if has_tiktok then tab_idx1 + 1 else tab_idx1)
              in (summary
                  @ (if alert then [Render_opportunity_alert social_metrics, Markdown ''---'']
                     else [])
                  @ [Tabs tab_names]
                  @ (if has_youtube
                     then [Within_tab 0 (Render_youtube_tab youtube_data youtube_metrics)]
                     else [])
                  @ (if has_tiktok
                     then [Within_tab tab_idx1 (Render_tiktok_tab tiktok_data tiktok_metrics)]
                     else [])
                  @ [Within_tab tab_idx2
                       (Render_comparison_tab trends_score youtube_metrics tiktok_metrics
                          social_metrics)],
                  None)))"

text \<open>
  The whole function: the calls made, and the exception that ended it, if any. The
  keyword is a parameter the body never uses.
\<close>

definition render_social_media_section ::
  "string \<Rightarrow> pyval \<Rightarrow> pyval \<Rightarrow> pyval \<Rightarrow> pyval \<Rightarrow> pyval \<Rightarrow> pyval
     \<Rightarrow> ui_call list \<times> py_exc option" where
  "render_social_media_section keyword youtube_data youtube_metrics tiktok_data tiktok_metrics
       social_metrics trends_score =
     (case has_videos youtube_metrics of
        Inl e \<Rightarrow> ([Markdown section_title], Some e)
      | Inr has_youtube \<Rightarrow>
          (case has_videos tiktok_metrics of
             Inl e \<Rightarrow> ([Markdown section_title], Some e)
           | Inr has_tiktok \<Rightarrow>
               if \<not> has_youtube \<and> \<not> has_tiktok
               then ([Markdown section_title, Info no_data_message], None)
               else (let (calls, raised) =
                           render_panels has_youtube has_tiktok youtube_data youtube_metrics
                             tiktok_data tiktok_metrics social_metrics trends_score
                     in (Markdown section_title # calls, raised))))"

text \<open>
  The condition the panel is meant to test, stated on the data alone: the metrics value
  is an object whose \<^verbatim>\<open>total_videos\<close> attribute is a number greater than 0.
\<close>

fun positive_total_videos :: "pyval \<Rightarrow> bool" where
  "positive_total_videos (PObj attrs) =
     (case map_of attrs ''total_videos'' of
        Some (PInt n) \<Rightarrow> 0 < n
      | Some (PBool b) \<Rightarrow> b
      | Some (PFloat x) \<Rightarrow> 0 < x
      | _ \<Rightarrow> False)"
| "positive_total_videos v = False"

section \<open>\<^verbatim>\<open>_format_number\<close> (components/social_media_panel.py)\<close>

subsection \<open>Decimal digits of an integer: \<^verbatim>\<open>str(num)\<close>\<close>

definition digit_char :: "nat \<Rightarrow> char" where
  "digit_char d = ''0123456789'' ! d"

fun nat_digits :: "nat \<Rightarrow> string" where
  "nat_digits n =
     (if n < 10 then [digit_char n] else nat_digits (n div 10) @ [digit_char (n mod 10)])"

declare nat_digits.simps [simp del]

definition py_str_int :: "int \<Rightarrow> string" where
  "py_str_int n = (if n < 0 then CHR ''-'' # nat_digits (nat (- n)) else nat_digits (nat n))"

subsection \<open>True division of integers: \<^verbatim>\<open>num / 1_000\<close>\<close>

text \<open>
  \<^verbatim>\<open>/\<close> on two Python integers yields the IEEE 754 binary64 number nearest to the
  exact quotient, ties going to the even mantissa, and raises OverflowError when that
  number would be \<open>2^1024\<close> or more (ZeroDivisionError for a zero divisor). A finite
  double is written here as its integer mantissa and binary exponent: the record
  stands for \<open>mantissa * 2^exponent\<close>. The sign of a zero is not kept.
\<close>

record double =
  mantissa :: int
  exponent :: int

definition double_value :: "double \<Rightarrow> rat" where
  "double_value d = of_int (mantissa d) * 2 powi (exponent d)"

text \<open>\<^verbatim>\<open>int.bit_length()\<close> of a natural number.\<close>

fun bit_length :: "nat \<Rightarrow> nat" where
  "bit_length n = (if n = 0 then 0 else Suc (bit_length (n div 2)))"

declare bit_length.simps [simp del]

text \<open>The integer nearest to \<open>p / q\<close> for \<open>q > 0\<close>, a tie going to the even one.\<close>

definition round_half_even_quot :: "int \<Rightarrow> int \<Rightarrow> int" where
  "round_half_even_quot p q =
     (let f = p div q; r = p mod q
      in if 2 * r < q then f else if q < 2 * r then f + 1 else if even f then f else f + 1)"

text \<open>\<open>\<lfloor>log\<^sub>2 (a / b)\<rfloor>\<close> for positive \<open>a\<close> and \<open>b\<close>: the difference of the bit lengths,
  or one less.\<close>

definition floor_log2_quot :: "int \<Rightarrow> int \<Rightarrow> int" where
  "floor_log2_quot a b =
     (let e0 = int (bit_length (nat a)) - int (bit_length (nat b))
      in if b * 2 ^ nat e0 \<le> a * 2 ^ nat (- e0) then e0 else e0 - 1)"

text \<open>
  The double nearest to \<open>a / b\<close> for positive \<open>a\<close> and \<open>b\<close>: the mantissa has 53 bits
  in the normal range, and the exponent stops at \<open>-1074\<close> (subnormal numbers).
\<close>

definition nearest_double :: "int \<Rightarrow> int \<Rightarrow> double" where
  "nearest_double a b =
     (let x = max (floor_log2_quot a b) (- 1022) - 52
      in \<lparr>mantissa = round_half_even_quot (a * 2 ^ nat (- x)) (b * 2 ^ nat x), exponent = x\<rparr>)"

definition overflows :: "double \<Rightarrow> bool" where
  "overflows d = (2 ^ 1024 * 2 ^ nat (- exponent d) \<le> \<bar>mantissa d\<bar> * 2 ^ nat (exponent d))"

definition py_truediv :: "int \<Rightarrow> int \<Rightarrow> py_exc + double" where
  "py_truediv a b =
     (if b = 0 then Inl (Exc ''ZeroDivisionError'')
      else if a = 0 then Inr \<lparr>mantissa = 0, exponent = 0\<rparr>
      else (let d = nearest_double \<bar>a\<bar> \<bar>b\<bar>
            in if overflows d then Inl (Exc ''OverflowError'')
               else Inr (if (a < 0) = (b < 0) then d else d\<lparr>mantissa := - mantissa d\<rparr>)))"

subsection \<open>Fixed-point formatting: \<^verbatim>\<open>f"{x:.1f}"\<close>\<close>

text \<open>
  The format prints the exact value of the double rounded to one decimal, ties going
  to the even digit. \<open>tenths\<close> is that rounded value counted in tenths, and
  \<open>show_tenths\<close> writes it with the decimal point.
\<close>

definition tenths :: "double \<Rightarrow> nat" where
  "tenths d =
     nat (round_half_even_quot (10 * \<bar>mantissa d\<bar> * 2 ^ nat (exponent d))
            (2 ^ nat (- exponent d)))"

definition show_tenths :: "nat \<Rightarrow> string" where
  "show_tenths t = nat_digits (t div 10) @ ''.'' @ nat_digits (t mod 10)"

definition format_1f :: "double \<Rightarrow> string" where
  "format_1f d = (if mantissa d < 0 then ''-'' else []) @ show_tenths (tenths d)"

subsection \<open>The function\<close>

definition format_number :: "int \<Rightarrow> py_exc + string" where
  "format_number num =
     (if num \<ge> 1000000000 then
        bind_exc (py_truediv num 1000000000) (\<lambda>d. Inr (format_1f d @ ''B''))
      else if num \<ge> 1000000 then
        bind_exc (py_truediv num 1000000) (\<lambda>d. Inr (format_1f d @ ''M''))
      else if num \<ge> 1000 then
        bind_exc (py_truediv num 1000) (\<lambda>d. Inr (format_1f d @ ''K''))
      else Inr (py_str_int num))"

text \<open>
  What "\<open>n / den\<close> rounded to one decimal" asks of the printed mantissa \<open>s\<close>: it is a
  decimal with one fractional digit, and no such decimal is nearer to the exact
  quotient, that is, it is within \<open>1/20\<close> of it.
\<close>

definition rounded_to_one_decimal :: "int \<Rightarrow> int \<Rightarrow> string \<Rightarrow> bool" where
  "rounded_to_one_decimal n den s =
     (\<exists>t::nat. s = show_tenths t \<and> \<bar>of_nat t / 10 - of_int n / of_int den\<bar> \<le> (1 / 20 :: rat))"

section \<open>\<^verbatim>\<open>calculate_growth_rate\<close> (modules/google_trends.py)\<close>

text \<open>
  Modelled from the spec: \<^verbatim>\<open>calculate_growth_rate\<close> is imported by app.py from
  modules/google_trends.py, which is not among the sources; the definitions below follow
  sections 3 (GrowthMetrics) and 4.1 of the specification. A series is the list of its
  sample values in time order, \<open>None\<close> being a null sample. The current value is the
  last non-null sample; the previous value is the sample \<open>lookback\<close> places before it,
  or the first sample when the series is shorter than that; the lookback offset is a
  parameter, the specification naming no number. The growth rate is
  \<open>(current - previous) / previous * 100\<close>, and 0 when the previous value is 0; an empty
  series yields the zeroed metrics. The direction is read off the sign of the growth
  rate. Division is Python's: it raises ZeroDivisionError on a zero divisor.
\<close>

datatype trend_direction = Trend_up | Trend_down | Trend_flat

record growth_metrics =
  current_value :: rat
  previous_value :: rat
  growth_rate :: rat
  direction :: trend_direction

definition py_div :: "rat \<Rightarrow> rat \<Rightarrow> py_exc + rat" where
  "py_div a b = (if b = 0 then Inl (Exc ''ZeroDivisionError'') else Inr (a / b))"

definition direction_of :: "rat \<Rightarrow> trend_direction" where
  "direction_of g = (if 0 < g then Trend_up else if g < 0 then Trend_down else Trend_flat)"

definition zeroed_growth :: growth_metrics where
  "zeroed_growth =
     \<lparr>current_value = 0, previous_value = 0, growth_rate = 0, direction = Trend_flat\<rparr>"

definition calculate_growth_rate :: "nat \<Rightarrow> rat option list \<Rightarrow> py_exc + growth_metrics" where
  "calculate_growth_rate lookback series =
     (let samples = List.map_filter (\<lambda>v. v) series
      in if samples = [] then Inr zeroed_growth
         else
           (let current = last samples;
                previous = (if lookback < length samples
                            then samples ! (length samples - 1 - lookback)
                            else hd samples)
            in bind_exc
                 (if previous = 0 then Inr 0
                  else bind_exc (py_div (current - previous) previous) (\<lambda>q. Inr (q * 100)))
                 (\<lambda>g. Inr \<lparr>current_value = current, previous_value = previous,
                             growth_rate = g, direction = direction_of g\<rparr>)))"

section \<open>\<^verbatim>\<open>add_to_history\<close> (utils)\<close>

text \<open>
  Modelled from the spec: \<^verbatim>\<open>add_to_history\<close> is imported by app.py from the
  \<^verbatim>\<open>utils\<close> package, which is not among the sources; \<^verbatim>\<open>main\<close> calls it with
  the sanitized keyword (app.py, line 199). Following sections 3, 5 and 8 of the
  specification, the history is a list of keywords with the most recent one in front:
  adding a keyword removes its earlier occurrence, puts it in front, and cuts the list
  to the size bound, which drops the oldest entries. The bound is a parameter, the
  specification naming no number. The session state that holds the list is passed in
  and returned.
\<close>

definition add_to_history :: "nat \<Rightarrow> string \<Rightarrow> string list \<Rightarrow> string list" where
  "add_to_history bound keyword history =
     take bound (keyword # filter (\<lambda>k. k \<noteq> keyword) history)"

section \<open>Properties of the scoring stage\<close>

lemma try_except_no_Exc: "try_except r h \<noteq> Inl (Exc e)"
  by (cases "(r, h)" rule: try_except.cases) simp_all

text \<open>
  C8. In the deep-dive pipeline an \<^verbatim>\<open>Exception\<close> raised by any of the three
  scoring calls (or while their arguments are computed) never leaves the stage: the
  stage as a whole does not end in such an exception, a failing trend or potential
  call leaves \<^verbatim>\<open>{"score": 0, "grade": "F", "factors": {}}\<close> in its variable, and a
  failing opportunity call leaves the dictionary whose level is "MUY BAJA", whose
  combined score is 0 and whose action is "No prioritario".
\<close>

theorem main_scoring_exceptions_caught:
  "(\<forall>e. scoring_stage eng td rel g s \<noteq> Inl (Exc e))
   \<and> (trend_call eng td rel = Inl (Exc e1) \<longrightarrow> trend_stage eng td rel = Inr default_score)
   \<and> (potential_call eng td rel g s = Inl (Exc e2) \<longrightarrow>
        potential_stage eng td rel g s = Inr default_score)
   \<and> (opportunity_call eng t p = Inl (Exc e3) \<longrightarrow>
        opportunity_stage eng t p = Inr default_opportunity)
   \<and> default_score = PDict [(''score'', PInt 0), (''grade'', PStr ''F''), (''factors'', PDict [])]
   \<and> dict_get default_opportunity ''level'' PNone = Inr (PStr ''MUY BAJA'')
   \<and> dict_get default_opportunity ''combined_score'' PNone = Inr (PInt 0)
   \<and> dict_get default_opportunity ''action'' PNone = Inr (PStr ''No prioritario'')"
proof -
  have "scoring_stage eng td rel g s \<noteq> Inl (Exc e)" for e
    unfolding scoring_stage_def trend_stage_def potential_stage_def opportunity_stage_def
      bind_exc_def
    by (auto split: sum.splits simp: try_except_no_Exc)
  then show ?thesis
    by (simp add: trend_stage_def potential_stage_def opportunity_stage_def
        default_opportunity_def default_score_def)
qed

theorem main_scoring_exceptions_caught_witness:
  "trend_call failing_engine (PList []) (PDict []) = Inl (Exc ''ValueError'')
   \<and> trend_stage failing_engine (PList []) (PDict []) = Inr default_score
   \<and> opportunity_call failing_engine default_score (PDict [(''score'', PInt 55)])
       = Inl (Exc ''ZeroDivisionError'')
   \<and> opportunity_stage failing_engine default_score (PDict [(''score'', PInt 55)])
       = Inr default_opportunity
   \<and> scoring_stage failing_engine (PList []) (PDict []) (PDict []) (PDict [])
       = Inr (default_score, PDict [(''score'', PInt 55)], default_opportunity)"
proof -
  have t: "trend_call failing_engine (PList []) (PDict []) = Inl (Exc ''ValueError'')"
    by (simp add: trend_call_def failing_engine_def bind_exc_def)
  have p: "potential_stage failing_engine (PList []) (PDict []) (PDict []) (PDict [])
      = Inr (PDict [(''score'', PInt 55)])"
    by (simp add: potential_stage_def potential_call_def failing_engine_def bind_exc_def)
  have c: "opportunity_call failing_engine default_score (PDict [(''score'', PInt 55)])
      = Inl (Exc ''ZeroDivisionError'')"
    by (simp add: opportunity_call_def failing_engine_def bind_exc_def default_score_def)
  from main_scoring_exceptions_caught
    [of failing_engine "PList []" "PDict []" "PDict []" "PDict []" "''ValueError''"
      "''TypeError''" default_score "PDict [(''score'', PInt 55)]" "''ZeroDivisionError''"]
    t c
  have ts: "trend_stage failing_engine (PList []) (PDict []) = Inr default_score"
    and os: "opportunity_stage failing_engine default_score (PDict [(''score'', PInt 55)])
      = Inr default_opportunity"
    by simp_all
  show ?thesis
    by (simp add: t c ts os p scoring_stage_def bind_exc_def)
qed

section \<open>Properties of \<^verbatim>\<open>render_social_media_section\<close>\<close>

lemma has_videos_eq: "has_videos m = Inr (positive_total_videos m)"
proof (cases m)
  case (PObj attrs)
  show ?thesis
  proof (cases "map_of attrs ''total_videos''")
    case None
    with PObj show ?thesis by (simp add: has_videos_def py_getattr_default_def)
  next
    case (Some v)
    with PObj show ?thesis
      by (cases v) (simp_all add: has_videos_def py_getattr_default_def)
  qed
qed (simp_all add: has_videos_def py_getattr_default_def)

text \<open>
  C9. Each of the two guarded checks yields a flag and never an exception, whatever the
  metrics values are. When neither metrics value is an object with
  \<^verbatim>\<open>total_videos > 0\<close> (it may be None, lack the attribute, or hold something that
  is not a positive number), the function writes the title and the "no data" message
  and returns; the result is the same for every \<^verbatim>\<open>social_metrics\<close>, which is
  never read.
\<close>

theorem social_section_no_data:
  "(\<exists>b. has_videos youtube_metrics = Inr b) \<and> (\<exists>b. has_videos tiktok_metrics = Inr b)
   \<and> (\<not> positive_total_videos youtube_metrics \<and> \<not> positive_total_videos tiktok_metrics \<longrightarrow>
        (\<forall>social_metrics.
           render_social_media_section keyword youtube_data youtube_metrics tiktok_data
             tiktok_metrics social_metrics trends_score
           = ([Markdown section_title, Info no_data_message], None)))"
  by (simp add: has_videos_eq render_social_media_section_def)

text \<open>
  A YouTube metrics object whose \<^verbatim>\<open>total_videos\<close> is the string "12" (the comparison
  raises TypeError, which the handler swallows) and no TikTok metrics; the social
  metrics value is an integer, on which an attribute read would fail.
\<close>

theorem social_section_no_data_witness:
  "\<not> positive_total_videos (PObj [(''total_videos'', PStr ''12'')])
   \<and> \<not> positive_total_videos PNone
   \<and> has_videos (PObj [(''total_videos'', PStr ''12'')]) = Inr False
   \<and> render_social_media_section ''beelink'' PNone (PObj [(''total_videos'', PStr ''12'')])
        PNone PNone (PInt 3) (PInt 40)
      = ([Markdown section_title, Info no_data_message], None)"
  using social_section_no_data
    [of "PObj [(''total_videos'', PStr ''12'')]" PNone "''beelink''" PNone PNone "PInt 40"]
  by (simp add: has_videos_def py_getattr_default_def)

section \<open>Properties of \<^verbatim>\<open>_format_number\<close>\<close>

subsection \<open>Bit length, rounding and the binary exponent\<close>

lemma bit_length_bounds:
  "0 < n \<Longrightarrow> 2 ^ (bit_length n - 1) \<le> n \<and> n < 2 ^ bit_length n"
proof (induction n rule: bit_length.induct)
  case (1 n)
  show ?case
  proof (cases "n div 2 = 0")
    case True
    with 1 have "n = 1" by (simp add: div_eq_0_iff)
    then show ?thesis by (simp add: bit_length.simps)
  next
    case False
    then have pos: "0 < n div 2" by simp
    from 1 have n0: "n \<noteq> 0" by simp
    from "1.IH"[OF n0 pos]
    have lo: "2 ^ (bit_length (n div 2) - 1) \<le> n div 2"
      and hi: "n div 2 < 2 ^ bit_length (n div 2)" by simp_all
    have bl: "bit_length n = Suc (bit_length (n div 2))"
      using n0 by (subst bit_length.simps) simp
    have blpos: "0 < bit_length (n div 2)"
      using pos by (subst bit_length.simps) simp
    then obtain k where k: "bit_length (n div 2) = Suc k" by (cases "bit_length (n div 2)") auto
    from lo k have "2 * 2 ^ k \<le> 2 * (n div 2)" by simp
    also have "\<dots> \<le> n" by simp
    finally have A: "2 ^ (bit_length n - 1) \<le> n" by (simp add: bl k)
    from hi have "Suc (n div 2) \<le> 2 ^ bit_length (n div 2)" by simp
    then have "2 * Suc (n div 2) \<le> 2 * 2 ^ bit_length (n div 2)" by simp
    moreover have "n < 2 * Suc (n div 2)" by presburger
    ultimately have B: "n < 2 ^ bit_length n" by (simp add: bl)
    from A B show ?thesis by simp
  qed
qed

lemma round_half_even_quot_near:
  assumes "0 < q"
  shows "2 * \<bar>round_half_even_quot p q * q - p\<bar> \<le> q"
proof -
  define f where "f = p div q"
  define r where "r = p mod q"
  have p: "p = f * q + r" by (simp add: f_def r_def)
  have r: "0 \<le> r" "r < q" using assms by (simp_all add: r_def)
  show ?thesis
    unfolding round_half_even_quot_def Let_def f_def[symmetric] r_def[symmetric]
    using r by (auto simp: p algebra_simps abs_if)
qed

lemma round_half_even_quot_nonneg:
  assumes "0 < q" "0 \<le> p"
  shows "0 \<le> round_half_even_quot p q"
proof -
  have "0 \<le> p div q" using assms by (simp add: pos_imp_zdiv_nonneg_iff)
  then show ?thesis by (simp add: round_half_even_quot_def Let_def)
qed

lemma floor_log2_quot_lower:
  assumes a: "0 < a" and b: "0 < b"
  shows "b * 2 ^ nat (floor_log2_quot a b) \<le> a * 2 ^ nat (- floor_log2_quot a b)"
proof -
  define la where "la = bit_length (nat a)"
  define lb where "lb = bit_length (nat b)"
  define e0 where "e0 = int la - int lb"
  from bit_length_bounds[of "nat a"] a have alo: "2 ^ (la - 1) \<le> nat a" by (simp add: la_def)
  from bit_length_bounds[of "nat b"] b have bhi: "nat b < 2 ^ lb" by (simp add: lb_def)
  have la_pos: "0 < la" using a unfolding la_def by (subst bit_length.simps) simp
  from alo a have alo': "(2::int) ^ (la - 1) \<le> a"
    by (metis of_nat_le_iff of_nat_numeral of_nat_power int_nat_eq less_le_not_le nle_le)
  from bhi b have bhi': "b < (2::int) ^ lb"
    by (metis of_nat_less_iff of_nat_numeral of_nat_power int_nat_eq less_le_not_le nle_le)
  show ?thesis
  proof (cases "b * 2 ^ nat e0 \<le> a * 2 ^ nat (- e0)")
    case True
    then show ?thesis
      by (simp add: floor_log2_quot_def Let_def e0_def la_def lb_def)
  next
    case False
    then have e: "floor_log2_quot a b = e0 - 1"
      by (simp add: floor_log2_quot_def Let_def e0_def la_def lb_def)
    show ?thesis
    proof (cases "1 \<le> e0")
      case True
      then have n1: "nat (e0 - 1) = la - 1 - lb" and n2: "nat (- (e0 - 1)) = 0" "nat (1 - e0) = 0"
        and le: "lb \<le> la - 1"
        by (auto simp add: e0_def nat_diff_distrib)
      have "b * 2 ^ (la - 1 - lb) \<le> 2 ^ lb * 2 ^ (la - 1 - lb)"
        using bhi' by (simp add: mult_right_mono)
      also have "\<dots> = 2 ^ (la - 1)" using le by (simp add: power_add[symmetric])
      also have "\<dots> \<le> a" by (rule alo')
      finally show ?thesis by (simp add: e n1 n2)
    next
      case False
      then have n1: "nat (e0 - 1) = 0" and n2: "nat (- (e0 - 1)) = lb - (la - 1)" "nat (1 - e0) = lb - (la - 1)"
        and le: "la - 1 \<le> lb"
        using la_pos by (auto simp add: e0_def)
      have "b \<le> 2 ^ lb" using bhi' by simp
      also have "\<dots> = 2 ^ (la - 1) * 2 ^ (lb - (la - 1))"
        using le by (simp add: power_add[symmetric])
      also have "\<dots> \<le> a * 2 ^ (lb - (la - 1))"
        using alo' by (simp add: mult_right_mono)
      finally show ?thesis by (simp add: e n1 n2)
    qed
  qed
qed

lemma floor_log2_quot_upper:
  assumes a: "0 < a" and b: "0 < b" and lt: "a < 2 ^ n * b"
  shows "floor_log2_quot a b < int n"
proof (rule ccontr)
  assume "\<not> floor_log2_quot a b < int n"
  then have ge: "int n \<le> floor_log2_quot a b" by simp
  then have n0: "nat (- floor_log2_quot a b) = 0" and nn: "n \<le> nat (floor_log2_quot a b)"
    by simp_all
  from floor_log2_quot_lower[OF a b] have "b * 2 ^ nat (floor_log2_quot a b) \<le> a"
    by (simp add: n0)
  moreover have "b * 2 ^ n \<le> b * 2 ^ nat (floor_log2_quot a b)"
    using b nn by (simp add: power_increasing)
  ultimately show False using lt by (simp add: mult.commute)
qed

lemma tenths_of_quotient:
  assumes a: "0 < a" and c: "0 < c" and lt: "a < 2 ^ 24 * (20 * c)" and small: "20 * c < 2 ^ 30"
  shows "\<exists>d. py_truediv a (20 * c) = Inr d \<and> 0 \<le> mantissa d
           \<and> \<bar>2 * c * int (tenths d) - a\<bar> \<le> c"
proof -
  define b where "b = 20 * c"
  have b: "0 < b" using c by (simp add: b_def)
  define e where "e = floor_log2_quot a b"
  have e: "e < 24" using floor_log2_quot_upper[OF a b, of 24] lt by (simp add: e_def b_def)
  define x where "x = max e (- 1022) - 52"
  define k where "k = nat (- x)"
  have xneg: "x \<le> - 29" using e by (simp add: x_def)
  then have nx: "nat x = 0" and k29: "29 \<le> k" by (simp_all add: k_def)
  define P :: int where "P = 2 ^ k"
  have P29: "2 ^ 29 \<le> P" unfolding P_def using k29 by (intro power_increasing) simp_all
  then have Ppos: "0 < P" by simp
  define m where "m = round_half_even_quot (a * P) b"
  define d where "d = \<lparr>mantissa = m, exponent = x\<rparr>"
  have nd: "nearest_double a b = d"
    by (simp add: nearest_double_def Let_def d_def m_def P_def k_def x_def e_def nx[unfolded x_def e_def])
  have m0: "0 \<le> m" unfolding m_def
    using a Ppos b by (intro round_half_even_quot_nonneg) simp_all
  have mnear: "2 * \<bar>m * b - a * P\<bar> \<le> b"
    unfolding m_def by (rule round_half_even_quot_near[OF b])
  have "m * b \<le> a * P + b" using mnear b by (simp add: abs_if split: if_splits)
  also have "\<dots> \<le> (2 ^ 24 * b) * P + b" using lt Ppos by (simp add: b_def)
  also have "\<dots> = (2 ^ 24 * P + 1) * b" by (simp add: algebra_simps)
  finally have "m \<le> 2 ^ 24 * P + 1" using b by simp
  also have "\<dots> < 2 ^ 1024 * P" using P29 by simp
  finally have novf: "\<not> overflows d"
    using m0 by (simp add: overflows_def d_def nx k_def[symmetric] P_def[symmetric])
  have td: "py_truediv a b = Inr d"
    using a b novf by (simp add: py_truediv_def Let_def nd)
  define T where "T = round_half_even_quot (10 * m) P"
  have T0: "0 \<le> T" unfolding T_def using m0 Ppos by (intro round_half_even_quot_nonneg) simp_all
  have Tnear: "2 * \<bar>T * P - 10 * m\<bar> \<le> P"
    unfolding T_def by (rule round_half_even_quot_near[OF Ppos])
  have tenths: "int (tenths d) = T"
    using T0 m0 by (simp add: tenths_def d_def nx k_def[symmetric] P_def[symmetric] T_def)
  define D where "D = 2 * c * T - a"
  have eq: "P * D = 2 * c * (T * P - 10 * m) + (m * b - a * P)"
    by (simp add: D_def b_def algebra_simps)
  have "\<bar>P * D\<bar> \<le> \<bar>2 * c * (T * P - 10 * m)\<bar> + \<bar>m * b - a * P\<bar>"
    unfolding eq by (rule abs_triangle_ineq)
  also have "\<bar>2 * c * (T * P - 10 * m)\<bar> = c * (2 * \<bar>T * P - 10 * m\<bar>)"
    using c by (simp add: abs_mult)
  also have "\<dots> \<le> c * P" using Tnear c by (simp add: mult_left_mono)
  finally have "\<bar>P * D\<bar> \<le> c * P + \<bar>m * b - a * P\<bar>" by simp
  moreover have "2 * \<bar>m * b - a * P\<bar> < 2 * P" using mnear small P29 by (simp add: b_def)
  ultimately have "\<bar>P * D\<bar> < (c + 1) * P" by (simp add: algebra_simps)
  then have "P * \<bar>D\<bar> < P * (c + 1)" using Ppos by (simp add: abs_mult mult.commute)
  then have "\<bar>D\<bar> < c + 1" using Ppos by (simp add: mult_less_cancel_left_pos)
  then have "\<bar>D\<bar> \<le> c" by simp
  with td m0 tenths show ?thesis
    by (auto simp: b_def D_def d_def)
qed

subsection \<open>The decimal rendering is injective\<close>

lemma digit_char_code:
  assumes "d < 10"
  shows "of_char (digit_char d) = (48 + d :: nat)"
proof -
  from assms have "d = 0 \<or> d = 1 \<or> d = 2 \<or> d = 3 \<or> d = 4 \<or> d = 5 \<or> d = 6 \<or> d = 7 \<or> d = 8 \<or> d = 9"
    by arith
  then show ?thesis by (elim disjE) (simp_all add: digit_char_def)
qed

lemma digit_char_inj:
  assumes "d < 10" "e < 10" "digit_char d = digit_char e"
  shows "d = e"
proof -
  have "48 + d = (of_char (digit_char d) :: nat)" using assms(1) by (simp add: digit_char_code)
  also have "\<dots> = of_char (digit_char e)" by (simp only: assms(3))
  also have "\<dots> = 48 + e" using assms(2) by (simp add: digit_char_code)
  finally show ?thesis by simp
qed

lemma nat_digits_small: "n < 10 \<Longrightarrow> nat_digits n = [digit_char n]"
  by (subst nat_digits.simps) simp

lemma nat_digits_large:
  "\<not> n < 10 \<Longrightarrow> nat_digits n = nat_digits (n div 10) @ [digit_char (n mod 10)]"
  by (subst nat_digits.simps) simp

lemma nat_digits_nonempty: "nat_digits n \<noteq> []"
  by (cases "n < 10") (simp_all add: nat_digits_small nat_digits_large)

lemma nat_digits_inj: "nat_digits n = nat_digits m \<Longrightarrow> n = m"
proof (induction n arbitrary: m rule: nat_digits.induct)
  case (1 n)
  show ?case
  proof (cases "n < 10")
    case True
    show ?thesis
    proof (cases "m < 10")
      case mt: True
      with True "1.prems" show ?thesis
        by (simp add: nat_digits_small digit_char_inj)
    next
      case False
      with True "1.prems" nat_digits_nonempty[of "m div 10"] show ?thesis
        by (simp add: nat_digits_small nat_digits_large)
    qed
  next
    case False
    show ?thesis
    proof (cases "m < 10")
      case True
      with False "1.prems" nat_digits_nonempty[of "n div 10"] show ?thesis
        by (simp add: nat_digits_small nat_digits_large)
    next
      case mf: False
      with False "1.prems" have eq: "nat_digits (n div 10) = nat_digits (m div 10)"
        and dg: "digit_char (n mod 10) = digit_char (m mod 10)"
        by (simp_all add: nat_digits_large)
      from "1.IH"[OF False eq] have "n div 10 = m div 10" .
      moreover from dg have "n mod 10 = m mod 10" by (intro digit_char_inj) simp_all
      ultimately show ?thesis by (metis div_mult_mod_eq)
    qed
  qed
qed

lemma show_tenths_inj: "show_tenths t = show_tenths u \<Longrightarrow> t = u"
proof -
  assume eq: "show_tenths t = show_tenths u"
  have st: "show_tenths v = nat_digits (v div 10) @ [CHR ''.'', digit_char (v mod 10)]" for v
    by (simp add: show_tenths_def nat_digits_small)
  from eq have "nat_digits (t div 10) = nat_digits (u div 10)"
    and "digit_char (t mod 10) = digit_char (u mod 10)"
    by (simp_all add: st)
  then have "t div 10 = u div 10" and "t mod 10 = u mod 10"
    by (auto intro: nat_digits_inj digit_char_inj)
  then show ?thesis by (metis div_mult_mod_eq)
qed

subsection \<open>The printed mantissa below \<open>2^24\<close>\<close>

lemma rounded_to_one_decimalI:
  assumes c: "0 < c" and near: "\<bar>2 * c * int t - n\<bar> \<le> c"
  shows "rounded_to_one_decimal n (20 * c) (show_tenths t)"
proof -
  have cr: "0 < (of_int c :: rat)" using c by simp
  have "(of_nat t / 10 - of_int n / of_int (20 * c) :: rat)
      = of_int (2 * c * int t - n) / of_int (20 * c)"
    using cr by (simp add: field_simps)
  then have "\<bar>of_nat t / 10 - of_int n / of_int (20 * c) :: rat\<bar>
      = of_int \<bar>2 * c * int t - n\<bar> / of_int (20 * c)"
    using cr by (simp add: abs_divide del: of_int_mult of_int_diff)
  also have "\<dots> \<le> of_int c / of_int (20 * c)"
  proof (rule divide_right_mono)
    show "(of_int \<bar>2 * c * int t - n\<bar> :: rat) \<le> of_int c"
      using near by (simp only: of_int_le_iff)
    show "0 \<le> (of_int (20 * c) :: rat)" using c by simp
  qed
  also have "\<dots> = 1 / 20" using cr by simp
  finally show ?thesis unfolding rounded_to_one_decimal_def by blast
qed

lemma format_number_quotient:
  assumes "0 < c" "20 * c \<le> n" "n < 2 ^ 24 * (20 * c)" "20 * c < 2 ^ 30"
  shows "\<exists>s. bind_exc (py_truediv n (20 * c)) (\<lambda>d. Inr (format_1f d @ suffix)) = Inr (s @ suffix)
            \<and> rounded_to_one_decimal n (20 * c) s"
proof -
  from assms have "0 < n" by simp
  from tenths_of_quotient[OF this assms(1) assms(3) assms(4)]
  obtain d where d: "py_truediv n (20 * c) = Inr d" "0 \<le> mantissa d"
    "\<bar>2 * c * int (tenths d) - n\<bar> \<le> c" by blast
  have "format_1f d = show_tenths (tenths d)" using d(2) by (simp add: format_1f_def)
  with d(1) rounded_to_one_decimalI[OF assms(1) d(3)] show ?thesis
    by (simp add: bind_exc_def)
qed

text \<open>
  C10, as amended. For every integer \<open>n\<close> below \<open>16777216000000000 = 2^24 * 10^9\<close>: the
  result is the decimal string of \<open>n\<close> when \<open>n < 1000\<close>; \<open>n / 1000\<close> rounded to one
  decimal followed by "K" when \<open>1000 \<le> n < 1000000\<close>; \<open>n / 1000000\<close> rounded to one
  decimal followed by "M" when \<open>1000000 \<le> n < 1000000000\<close>; and \<open>n / 1000000000\<close>
  rounded to one decimal followed by "B" from \<open>1000000000\<close> on. The four conditions
  exclude one another and cover every such \<open>n\<close>, and the function raises in none of
  them. At a tie either neighbour counts as rounded; which one is printed depends on
  the binary representation of the quotient.
\<close>

theorem format_number_bands:
  "(n < 1000 \<longrightarrow> format_number n = Inr (py_str_int n))
   \<and> (1000 \<le> n \<and> n < 1000000 \<longrightarrow>
        (\<exists>s. format_number n = Inr (s @ ''K'') \<and> rounded_to_one_decimal n 1000 s))
   \<and> (1000000 \<le> n \<and> n < 1000000000 \<longrightarrow>
        (\<exists>s. format_number n = Inr (s @ ''M'') \<and> rounded_to_one_decimal n 1000000 s))
   \<and> (1000000000 \<le> n \<and> n < 16777216000000000 \<longrightarrow>
        (\<exists>s. format_number n = Inr (s @ ''B'') \<and> rounded_to_one_decimal n 1000000000 s))"
proof (intro conjI impI)
  assume "n < 1000"
  then show "format_number n = Inr (py_str_int n)" by (simp add: format_number_def)
next
  assume "1000 \<le> n \<and> n < 1000000"
  then show "\<exists>s. format_number n = Inr (s @ ''K'') \<and> rounded_to_one_decimal n 1000 s"
    using format_number_quotient[of 50 n "''K''"] by (simp add: format_number_def)
next
  assume "1000000 \<le> n \<and> n < 1000000000"
  then show "\<exists>s. format_number n = Inr (s @ ''M'') \<and> rounded_to_one_decimal n 1000000 s"
    using format_number_quotient[of 50000 n "''M''"] by (simp add: format_number_def)
next
  assume "1000000000 \<le> n \<and> n < 16777216000000000"
  then show "\<exists>s. format_number n = Inr (s @ ''B'') \<and> rounded_to_one_decimal n 1000000000 s"
    using format_number_quotient[of 50000000 n "''B''"] by (simp add: format_number_def)
qed

subsection \<open>Examples in each band\<close>

lemma bit_length_1250: "bit_length 1250 = 11" by (simp add: bit_length.simps)
lemma bit_length_1000: "bit_length 1000 = 10" by (simp add: bit_length.simps)
lemma floor_log2_quot_1250: "floor_log2_quot 1250 1000 = 0"
  by (simp add: floor_log2_quot_def bit_length_1250 bit_length_1000)
lemma nearest_double_1250:
  "nearest_double 1250 1000 = \<lparr>mantissa = 5629499534213120, exponent = - 52\<rparr>"
  by (simp add: nearest_double_def floor_log2_quot_1250 round_half_even_quot_def Let_def)
lemma py_truediv_1250:
  "py_truediv 1250 1000 = Inr \<lparr>mantissa = 5629499534213120, exponent = - 52\<rparr>"
  by (simp add: py_truediv_def nearest_double_1250 overflows_def)
lemma tenths_1250: "tenths \<lparr>mantissa = 5629499534213120, exponent = - 52\<rparr> = 12"
  by (simp add: tenths_def round_half_even_quot_def Let_def)
lemma show_tenths_12: "show_tenths 12 = ''1.2''"
  by (simp add: show_tenths_def nat_digits.simps digit_char_def)
lemma format_number_1250: "format_number 1250 = Inr ''1.2K''"
  by (simp add: format_number_def py_truediv_1250 bind_exc_def format_1f_def tenths_1250
      show_tenths_12)

text \<open>
  One input in each band: 999, 1250 (a tie, printed as "1.2K"), 2500000 and 7300000000.
\<close>

theorem format_number_bands_witness:
  "format_number 999 = Inr ''999''
   \<and> format_number 1250 = Inr ''1.2K'' \<and> rounded_to_one_decimal 1250 1000 ''1.2''
   \<and> (\<exists>s. format_number 2500000 = Inr (s @ ''M'') \<and> rounded_to_one_decimal 2500000 1000000 s)
   \<and> (\<exists>s. format_number 7300000000 = Inr (s @ ''B'')
          \<and> rounded_to_one_decimal 7300000000 1000000000 s)"
proof -
  have "\<exists>s. format_number 1250 = Inr (s @ ''K'') \<and> rounded_to_one_decimal 1250 1000 s"
    by (rule format_number_bands[of 1250, THEN conjunct2, THEN conjunct1, THEN mp]) simp
  then obtain s where
    s: "format_number 1250 = Inr (s @ ''K'')" "rounded_to_one_decimal 1250 1000 s" by blast
  have "''1.2K'' = ''1.2'' @ ''K''" by simp
  with s(1) format_number_1250 have "s @ ''K'' = ''1.2'' @ ''K''" by (simp only: sum.inject)
  then have "s = ''1.2''" by (simp only: append_same_eq)
  with s(2) have r: "rounded_to_one_decimal 1250 1000 ''1.2''" by (simp only:)
  have "format_number 999 = Inr (py_str_int 999)"
    by (rule format_number_bands[of 999, THEN conjunct1, THEN mp]) simp
  then have z: "format_number 999 = Inr ''999''"
    by (simp add: py_str_int_def nat_digits.simps digit_char_def)
  have m: "\<exists>s. format_number 2500000 = Inr (s @ ''M'')
              \<and> rounded_to_one_decimal 2500000 1000000 s"
    by (rule format_number_bands
          [of 2500000, THEN conjunct2, THEN conjunct2, THEN conjunct1, THEN mp]) simp
  have b: "\<exists>s. format_number 7300000000 = Inr (s @ ''B'')
              \<and> rounded_to_one_decimal 7300000000 1000000000 s"
    by (rule format_number_bands
          [of 7300000000, THEN conjunct2, THEN conjunct2, THEN conjunct2, THEN mp]) simp
  from z format_number_1250 r m b show ?thesis by (intro conjI)
qed

subsection \<open>Beyond \<open>2^24 * 10^9\<close>\<close>

text \<open>
  The double nearest to \<open>16777216250000001 / 10^9\<close> is \<open>16777216.25\<close> exactly (the doubles
  are \<open>2^-28\<close> apart there), and the format rounds that tie to the even digit.
\<close>

lemma bit_length_cex: "bit_length 16777216250000001 = 54"
  by (simp add: bit_length.simps)
lemma bit_length_billion: "bit_length 1000000000 = 30"
  by (simp add: bit_length.simps)
lemma floor_log2_quot_cex: "floor_log2_quot 16777216250000001 1000000000 = 24"
  by (simp add: floor_log2_quot_def bit_length_cex bit_length_billion)
lemma nearest_double_cex:
  "nearest_double 16777216250000001 1000000000
     = \<lparr>mantissa = 4503599694479360, exponent = - 28\<rparr>"
  by (simp add: nearest_double_def floor_log2_quot_cex round_half_even_quot_def Let_def)
lemma py_truediv_large:
  "py_truediv 16777216250000001 1000000000
     = Inr \<lparr>mantissa = 4503599694479360, exponent = - 28\<rparr>"
  by (simp add: py_truediv_def nearest_double_cex overflows_def)
lemma double_value_cex:
  "double_value \<lparr>mantissa = 4503599694479360, exponent = - 28\<rparr> = 16777216 + 1 / 4"
  by (simp add: double_value_def power_int_minus)
lemma tenths_cex: "tenths \<lparr>mantissa = 4503599694479360, exponent = - 28\<rparr> = 167772162"
  by (simp add: tenths_def round_half_even_quot_def Let_def)
lemma show_tenths_cex: "show_tenths 167772162 = ''16777216.2''"
  by (simp add: show_tenths_def nat_digits.simps digit_char_def)
lemma format_number_large: "format_number 16777216250000001 = Inr ''16777216.2B''"
  by (simp add: format_number_def py_truediv_large bind_exc_def format_1f_def tenths_cex
      show_tenths_cex)

text \<open>
  C10 as stated fails at \<open>n = 16777216250000001\<close>: the function returns "16777216.2B",
  while the exact quotient \<open>16777216.250000001\<close> is more than \<open>0.05\<close> away from
  \<open>16777216.2\<close>; rounded to one decimal it is \<open>16777216.3\<close>.
\<close>

theorem format_number_counterexample:
  "format_number 16777216250000001 = Inr ''16777216.2B''
   \<and> \<not> (\<exists>s. format_number 16777216250000001 = Inr (s @ ''B'')
            \<and> rounded_to_one_decimal 16777216250000001 1000000000 s)"
proof (rule conjI)
  show "format_number 16777216250000001 = Inr ''16777216.2B''" by (rule format_number_large)
  show "\<not> (\<exists>s. format_number 16777216250000001 = Inr (s @ ''B'')
            \<and> rounded_to_one_decimal 16777216250000001 1000000000 s)"
  proof
    assume "\<exists>s. format_number 16777216250000001 = Inr (s @ ''B'')
            \<and> rounded_to_one_decimal 16777216250000001 1000000000 s"
    then obtain s where s: "format_number 16777216250000001 = Inr (s @ ''B'')"
      and r: "rounded_to_one_decimal 16777216250000001 1000000000 s" by blast
    have "''16777216.2B'' = ''16777216.2'' @ ''B''" by simp
    with s format_number_large have "s @ ''B'' = ''16777216.2'' @ ''B''"
      by (simp only: sum.inject)
    then have seq: "s = show_tenths 167772162"
      by (simp only: append_same_eq show_tenths_cex)
    from r obtain t :: nat where t0: "s = show_tenths t"
      and near: "\<bar>of_nat t / 10 - of_int 16777216250000001 / of_int 1000000000\<bar>
                   \<le> (1 / 20 :: rat)"
      unfolding rounded_to_one_decimal_def by (elim exE conjE)
    from t0 seq have t: "show_tenths 167772162 = show_tenths t" by (simp only:)
    from t have "t = 167772162" by (rule show_tenths_inj[symmetric])
    with near show False by simp
  qed
qed

subsection \<open>Beyond the range of a double\<close>

text \<open>
  From \<open>n / 10^9 \<ge> 2^1024\<close> on the division itself raises: the function returns
  nothing for \<open>n = 10^9 * 2^1024\<close>.
\<close>

lemma bit_length_double: "0 < n \<Longrightarrow> bit_length (2 * n) = Suc (bit_length n)"
  by (subst bit_length.simps) simp

lemma bit_length_shift: "0 < n \<Longrightarrow> bit_length (n * 2 ^ k) = bit_length n + k"
proof (induction k)
  case 0
  then show ?case by simp
next
  case (Suc k)
  then have "bit_length (2 * (n * 2 ^ k)) = Suc (bit_length (n * 2 ^ k))"
    by (intro bit_length_double) simp
  with Suc show ?case by (simp add: mult.commute mult.left_commute)
qed

lemma bit_length_overflow:
  "bit_length
     179769313486231590772930519078902473361797697894230657273430081157732675805500963132708477322407536021120113879871393357658789768814416622492847430639474124377767893424865485276302219601246094119453082952085005768838150682342462881473913110540827237163350510684586298239947245938479716304835356329624224137216000000000
     = 1054"
proof -
  have "(
     179769313486231590772930519078902473361797697894230657273430081157732675805500963132708477322407536021120113879871393357658789768814416622492847430639474124377767893424865485276302219601246094119453082952085005768838150682342462881473913110540827237163350510684586298239947245938479716304835356329624224137216000000000
     :: nat) = 1000000000 * 2 ^ 1024" by simp
  then have "bit_length
     179769313486231590772930519078902473361797697894230657273430081157732675805500963132708477322407536021120113879871393357658789768814416622492847430639474124377767893424865485276302219601246094119453082952085005768838150682342462881473913110540827237163350510684586298239947245938479716304835356329624224137216000000000
     = bit_length 1000000000 + 1024"
    by (simp only: bit_length_shift)
  then show ?thesis by (simp add: bit_length_billion)
qed

lemma floor_log2_quot_overflow:
  "floor_log2_quot
     179769313486231590772930519078902473361797697894230657273430081157732675805500963132708477322407536021120113879871393357658789768814416622492847430639474124377767893424865485276302219601246094119453082952085005768838150682342462881473913110540827237163350510684586298239947245938479716304835356329624224137216000000000
     1000000000 = 1024"
  by (simp add: floor_log2_quot_def bit_length_overflow bit_length_billion)

lemma nearest_double_overflow:
  "nearest_double
     179769313486231590772930519078902473361797697894230657273430081157732675805500963132708477322407536021120113879871393357658789768814416622492847430639474124377767893424865485276302219601246094119453082952085005768838150682342462881473913110540827237163350510684586298239947245938479716304835356329624224137216000000000
     1000000000 = \<lparr>mantissa = 4503599627370496, exponent = 972\<rparr>"
  by (simp add: nearest_double_def floor_log2_quot_overflow round_half_even_quot_def Let_def)

lemma py_truediv_overflow:
  "py_truediv
     179769313486231590772930519078902473361797697894230657273430081157732675805500963132708477322407536021120113879871393357658789768814416622492847430639474124377767893424865485276302219601246094119453082952085005768838150682342462881473913110540827237163350510684586298239947245938479716304835356329624224137216000000000
     1000000000 = Inl (Exc ''OverflowError'')"
  by (simp add: py_truediv_def nearest_double_overflow overflows_def)

lemma format_number_overflow:
  "format_number (1000000000 * 2 ^ 1024) = Inl (Exc ''OverflowError'')"
proof -
  have "format_number
     179769313486231590772930519078902473361797697894230657273430081157732675805500963132708477322407536021120113879871393357658789768814416622492847430639474124377767893424865485276302219601246094119453082952085005768838150682342462881473913110540827237163350510684586298239947245938479716304835356329624224137216000000000
     = Inl (Exc ''OverflowError'')"
    by (simp add: format_number_def py_truediv_overflow bind_exc_def)
  then show ?thesis by simp
qed

section \<open>Properties of \<^verbatim>\<open>calculate_growth_rate\<close>\<close>

text \<open>
  C2. For every lookback offset and every series the function returns metrics (no
  ZeroDivisionError leaves it, so the division is never performed with a zero divisor),
  and whenever the previous value it determined is 0, the growth rate it returns is 0.
\<close>

theorem growth_rate_zero_previous:
  "\<exists>g. calculate_growth_rate lookback series = Inr g
        \<and> (previous_value g = 0 \<longrightarrow> growth_rate g = 0 \<and> direction g = Trend_flat)"
  by (auto simp: calculate_growth_rate_def Let_def bind_exc_def py_div_def zeroed_growth_def
      direction_of_def)

text \<open>
  A series whose sample one place back is 0 (the null sample in between is skipped), and
  one with a previous value of 20.
\<close>

theorem growth_rate_zero_previous_witness:
  "calculate_growth_rate 1 [Some 0, None, Some 40] =
     Inr \<lparr>current_value = 40, previous_value = 0, growth_rate = 0, direction = Trend_flat\<rparr>
   \<and> calculate_growth_rate 1 [Some 20, Some 50] =
     Inr \<lparr>current_value = 50, previous_value = 20, growth_rate = 150, direction = Trend_up\<rparr>"
  using growth_rate_zero_previous[of 1 "[Some 0, None, Some 40]"]
  by (simp add: calculate_growth_rate_def Let_def bind_exc_def py_div_def List.map_filter_def
      direction_of_def)

section \<open>Properties of \<^verbatim>\<open>add_to_history\<close>\<close>

lemma filter_neq_absent: "x \<notin> set xs \<Longrightarrow> filter (\<lambda>k. k \<noteq> x) xs = xs"
  by (induction xs) auto

lemma length_filter_neq_distinct:
  "distinct xs \<Longrightarrow> x \<in> set xs \<Longrightarrow> Suc (length (filter (\<lambda>k. k \<noteq> x) xs)) = length xs"
  by (induction xs) (auto simp: filter_neq_absent)

text \<open>
  C7. A history without duplicates and within its bound stays so after every addition.
  Adding a keyword that is already in the list moves that entry to the front: the list
  keeps its length and its elements. Adding a new keyword to a list that is at its
  bound drops the last, oldest entry; below the bound nothing is dropped.
\<close>

theorem history_invariant:
  assumes "distinct history" and "length history \<le> bound"
  shows "distinct (add_to_history bound keyword history)
       \<and> length (add_to_history bound keyword history) \<le> bound
       \<and> (keyword \<in> set history \<longrightarrow>
            add_to_history bound keyword history
              = keyword # filter (\<lambda>k. k \<noteq> keyword) history
            \<and> length (add_to_history bound keyword history) = length history
            \<and> set (add_to_history bound keyword history) = set history)
       \<and> (keyword \<notin> set history \<and> length history < bound \<longrightarrow>
            add_to_history bound keyword history = keyword # history)
       \<and> (keyword \<notin> set history \<and> length history = bound \<and> 0 < bound \<longrightarrow>
            add_to_history bound keyword history = keyword # butlast history)"
proof (intro conjI impI)
  show "distinct (add_to_history bound keyword history)"
    using assms(1) by (simp add: add_to_history_def)
  show "length (add_to_history bound keyword history) \<le> bound"
    by (simp add: add_to_history_def)
next
  assume k: "keyword \<in> set history"
  from length_filter_neq_distinct[OF assms(1) k] assms(2)
  have len: "length (keyword # filter (\<lambda>k. k \<noteq> keyword) history) \<le> bound" by simp
  then show eq: "add_to_history bound keyword history
      = keyword # filter (\<lambda>k. k \<noteq> keyword) history"
    unfolding add_to_history_def by (rule take_all)
  show "length (add_to_history bound keyword history) = length history"
    using length_filter_neq_distinct[OF assms(1) k] by (simp add: eq)
  show "set (add_to_history bound keyword history) = set history"
    using k by (auto simp: eq)
next
  assume "keyword \<notin> set history \<and> length history < bound"
  then show "add_to_history bound keyword history = keyword # history"
    by (simp add: add_to_history_def filter_neq_absent)
next
  assume a: "keyword \<notin> set history \<and> length history = bound \<and> 0 < bound"
  then obtain n where n: "bound = Suc n" by (cases bound) auto
  from a have f: "filter (\<lambda>k. k \<noteq> keyword) history = history" by (simp add: filter_neq_absent)
  from a n have "take n history = butlast history" by (simp add: butlast_conv_take)
  then show "add_to_history bound keyword history = keyword # butlast history"
    by (simp add: add_to_history_def f n)
qed

text \<open>
  A full history of three keywords: re-adding the oldest one moves it to the front, and
  adding a fourth keyword evicts the oldest.
\<close>

theorem history_invariant_witness:
  "distinct [''beelink'', ''steam deck'', ''framework'']
   \<and> add_to_history 3 ''framework'' [''beelink'', ''steam deck'', ''framework'']
       = [''framework'', ''beelink'', ''steam deck'']
   \<and> add_to_history 3 ''rog ally'' [''beelink'', ''steam deck'', ''framework'']
       = [''rog ally'', ''beelink'', ''steam deck'']"
  using history_invariant[of "[''beelink'', ''steam deck'', ''framework'']" 3 "''framework''"]
    history_invariant[of "[''beelink'', ''steam deck'', ''framework'']" 3 "''rog ally''"]
  by simp

end
